theory Spec2Isabelle
  imports Main "HOL-Library.Monad_Syntax"
begin

section \<open>dist2src: converting a dist-git repository into a source-git repository\<close>

text \<open>
  A shallow embedding of \<^verbatim>\<open>dist2src/core.py\<close>. Pure helpers are HOL functions;
  whatever raises in Python returns an error value here. The file system and the git
  repository are explicit values that the operations take and return.
\<close>

subsection \<open>Constants of the module\<close>

definition START_TAG :: string where
  "START_TAG = ''sg-start''"

definition POST_CLONE_HOOK :: string where
  "POST_CLONE_HOOK = ''post-clone''"

definition AFTER_PREP_HOOK :: string where
  "AFTER_PREP_HOOK = ''after-prep''"

definition INCLUDE_SOURCES :: string where
  "INCLUDE_SOURCES = ''include-files''"

definition TEMP_SG_BRANCH :: string where
  "TEMP_SG_BRANCH = ''updates''"

subsection \<open>Errors\<close>

text \<open>
  \<open>RuntimeError\<close> carries the message of the \<^verbatim>\<open>raise RuntimeError(...)\<close> statements of the
  module. \<open>FileNotFoundError\<close> is what \<^verbatim>\<open>Path.iterdir\<close> raises for a directory that does not
  exist, \<open>TypeError\<close> what \<^verbatim>\<open>None / "SOURCES"\<close> raises.
\<close>

datatype error = RuntimeError string | FileNotFoundError | TypeError

subsection \<open>Paths\<close>

text \<open>
  A \<^verbatim>\<open>pathlib.Path\<close> on POSIX: whether it starts at the root, and its components.
  \<open>name\<close> is the last component, the empty string for \<^verbatim>\<open>/\<close> and \<^verbatim>\<open>.\<close>;
  \<open>joinpath\<close> is \<^verbatim>\<open>p / n\<close> for a single relative component \<open>n\<close>.
\<close>

record path =
  absolute :: bool
  parts :: "string list"

definition name :: "path \<Rightarrow> string" where
  "name p = (if parts p = [] then [] else last (parts p))"

definition joinpath :: "path \<Rightarrow> string \<Rightarrow> path" where
  "joinpath p n = p\<lparr>parts := parts p @ [n]\<rparr>"

fun join_parts :: "string list \<Rightarrow> string" where
  "join_parts [] = []"
| "join_parts [c] = c"
| "join_parts (c # cs) = c @ ''/'' @ join_parts cs"

definition str_path :: "path \<Rightarrow> string" where
  "str_path p =
     (if absolute p then ''/'' @ join_parts (parts p)
      else if parts p = [] then ''.'' else join_parts (parts p))"

subsection \<open>The hook registry\<close>

text \<open>
  \<^verbatim>\<open>HOOKS: Dict[str, Dict[str, Any]]\<close>. A hook's value is a shell command (a string) or a
  list of glob patterns.
\<close>

datatype hook_value = Command string | Files "string list"

definition HOOKS :: "(string \<times> (string \<times> hook_value) list) list" where
  "HOOKS =
     [(''kernel'',
        [(AFTER_PREP_HOOK,
          Command (''set -e; '' @
                   ''shopt -s dotglob nullglob && '' @
                   ''cd BUILD/kernel-4.18.0-*.el8/ && '' @
                   ''mv ./linux-4.18.0-*.el8.x86_64/* . && '' @
                   ''rmdir ./linux-4.18.0-*.el8.x86_64 && '' @
                   ''git add . && '' @
                   ''git commit --amend --no-edit''))]),
      (''pacemaker'',
        [(INCLUDE_SOURCES, Files [''nagios-agents-metadata-*.tar.gz''])])]"

definition get_hook :: "string \<Rightarrow> string \<Rightarrow> hook_value option" where
  "get_hook package_name hook_name =
     (case map_of HOOKS package_name of
        None \<Rightarrow> None
      | Some hooks \<Rightarrow> map_of hooks hook_name)"

subsection \<open>The build directory\<close>

text \<open>
  \<open>get_build_dir path listing\<close>: \<open>listing\<close> is what \<^verbatim>\<open>(path / "BUILD").iterdir()\<close> yields,
  each entry with the answer of \<^verbatim>\<open>is_dir()\<close>; \<open>None\<close> when \<^verbatim>\<open>BUILD\<close> does not exist.
\<close>

definition get_build_dir :: "path \<Rightarrow> (string \<times> bool) list option \<Rightarrow> error + path" where
  "get_build_dir p listing =
     (case listing of
        None \<Rightarrow> Inl FileNotFoundError
      | Some entries \<Rightarrow>
          (let build_dirs = map (\<lambda>(d, _). joinpath (joinpath p ''BUILD'') d)
                              (filter (\<lambda>(_, is_dir). is_dir) entries)
           in if length build_dirs > 1
              then Inl (RuntimeError (''More than one directory found in '' @ str_path p))
              else if length build_dirs < 1
              then Inl (RuntimeError (''No subdirectory found in '' @ str_path p))
              else Inr (build_dirs ! 0)))"

subsection \<open>Package identity\<close>

text \<open>
  The properties \<^verbatim>\<open>package_name\<close> and \<^verbatim>\<open>relative_specfile_path\<close> of \<^verbatim>\<open>Dist2Src\<close>, as
  functions of the two optional paths the object was built with. A \<^verbatim>\<open>Path\<close> object is
  always truthy, so \<^verbatim>\<open>if self.dist_git_path\<close> tests for \<^verbatim>\<open>None\<close>.
\<close>

definition package_name :: "path option \<Rightarrow> path option \<Rightarrow> error + string" where
  "package_name dist_git_path source_git_path =
     (case dist_git_path of
        Some d \<Rightarrow> Inr (name d)
      | None \<Rightarrow>
          (case source_git_path of
             Some s \<Rightarrow> Inr (name s)
           | None \<Rightarrow>
               Inl (RuntimeError
                 (''I'' @ [CHR 0x27] @
                  ''m sorry but nor dist_git_path nor source_git_path are defined.''))))"

definition relative_specfile_path :: "path option \<Rightarrow> path option \<Rightarrow> error + string" where
  "relative_specfile_path dist_git_path source_git_path =
     (case package_name dist_git_path source_git_path of
        Inl e \<Rightarrow> Inl e
      | Inr n \<Rightarrow> Inr (''SPECS/'' @ n @ ''.spec''))"

text \<open>
  The expression \<^verbatim>\<open>get_hook(self.package_name, hook_name)\<close>, as \<^verbatim>\<open>run_prep\<close> and
  \<^verbatim>\<open>copy_all_sources\<close> evaluate it.
\<close>

definition package_hook :: "path option \<Rightarrow> path option \<Rightarrow> string \<Rightarrow> error + hook_value option" where
  "package_hook dist_git_path source_git_path hook_name =
     (case package_name dist_git_path source_git_path of
        Inl e \<Rightarrow> Inl e
      | Inr n \<Rightarrow> Inr (get_hook n hook_name))"

subsection \<open>Strings\<close>

text \<open>
  A Python \<^verbatim>\<open>str\<close> is a list of characters; the model covers code points below 256.
  \<open>startswith s p\<close> is \<^verbatim>\<open>s.startswith(p)\<close>, \<open>endswith s p\<close> is \<^verbatim>\<open>s.endswith(p)\<close>.
\<close>

definition startswith :: "string \<Rightarrow> string \<Rightarrow> bool" where
  "startswith s p = (take (length p) s = p)"


text \<open>
  \<open>replace old new s\<close> is \<^verbatim>\<open>s.replace(old, new)\<close>: every occurrence of \<open>old\<close>, found from
  the left and not overlapping, becomes \<open>new\<close>. For an empty \<open>old\<close> Python puts \<open>new\<close> before
  every character and at the end.
\<close>

fun replace :: "string \<Rightarrow> string \<Rightarrow> string \<Rightarrow> string" where
  "replace old new [] = (if old = [] then new else [])"
| "replace old new (c # cs) =
     (if old = [] then new @ c # replace old new cs
      else if startswith (c # cs) old then new @ replace old new (drop (length old - 1) cs)
      else c # replace old new cs)"

text \<open>
  \<open>isspace\<close> is the class \<^verbatim>\<open>\s\<close> of a \<^verbatim>\<open>str\<close> pattern on code points below 256: tab, line
  feed, vertical tab, form feed, carriage return, the separators 28 to 31, space, NEL (133)
  and the no-break space (160).
\<close>

definition isspace :: "char \<Rightarrow> bool" where
  "isspace c =
     (let n = (of_char c :: nat)
      in (9 \<le> n \<and> n \<le> 13) \<or> (28 \<le> n \<and> n \<le> 31) \<or> n = 32 \<or> n = 133 \<or> n = 160)"

text \<open>
  \<open>re_sub_quiet s\<close> is \<^verbatim>\<open>re.sub(r"\s+-q", r"", s)\<close>. A match starts at a white-space
  character, takes the whole run of white space (a shorter run is followed by white space,
  not by \<^verbatim>\<open>-\<close>) and the two characters \<^verbatim>\<open>-q\<close>; it is deleted and the scan goes on behind it.
\<close>

function re_sub_quiet :: "string \<Rightarrow> string" where
  "re_sub_quiet [] = []"
| "re_sub_quiet (c # cs) =
     (if isspace c \<and> startswith (dropWhile isspace cs) ''-q''
      then re_sub_quiet (drop 2 (dropWhile isspace cs))
      else c # re_sub_quiet cs)"
  by pat_completeness auto
termination
proof (relation "measure length")
  show "wf (measure length)"
    by simp
next
  fix c :: char and cs :: string
  have "length (dropWhile isspace cs) \<le> length cs"
    by (rule length_dropWhile_le)
  then show "(drop 2 (dropWhile isspace cs), c # cs) \<in> measure length"
    by simp
next
  fix c :: char and cs :: string
  show "(cs, c # cs) \<in> measure length"
    by simp
qed

subsection \<open>Normalising the spec file\<close>

text \<open>
  The spec file as the \<^verbatim>\<open>Specfile\<close> object reads and writes it: the lines of its
  \<^verbatim>\<open>%prep\<close> section (\<open>None\<close> when the file has no such section, for which
  \<^verbatim>\<open>section("%prep")\<close> gives \<^verbatim>\<open>None\<close>) and the lines of everything else.
\<close>

record specfile =
  prep :: "string list option"
  other_sections :: "string list"

text \<open>
  The loop of \<^verbatim>\<open>_enforce_autosetup\<close>. \<open>enforce_loop seen todo\<close>: \<open>seen\<close> is
  \<^verbatim>\<open>prep_lines[:i]\<close> as the iterations so far have left it in memory, \<open>todo\<close> is
  \<^verbatim>\<open>prep_lines[i:]\<close>. The result is the list in memory when the loop is left, and whether
  it was left at its end (\<open>True\<close>: \<^verbatim>\<open>s.save()\<close> comes next) or by \<^verbatim>\<open>return\<close> (\<open>False\<close>).
\<close>

fun enforce_loop :: "string list \<Rightarrow> string list \<Rightarrow> string list \<times> bool" where
  "enforce_loop seen [] = (seen, True)"
| "enforce_loop seen (line # rest) =
     (if startswith line ''%autosetup'' \<or> startswith line ''%autopatch''
      then (seen @ line # rest, False)
      else if startswith line ''%setup''
      then enforce_loop
             (seen @ [re_sub_quiet (replace ''%setup'' ''%autosetup -N'' line)]) rest
      else enforce_loop (seen @ [line]) rest)"

text \<open>
  \<open>enforce_autosetup f\<close> is the spec file on disk after \<^verbatim>\<open>_enforce_autosetup\<close>, \<open>f\<close> being
  the file before. \<^verbatim>\<open>s.save()\<close> writes the sections back as they are in memory.
\<close>

definition enforce_autosetup :: "specfile \<Rightarrow> error + specfile" where
  "enforce_autosetup f =
     (case prep f of
        None \<Rightarrow> Inl TypeError
      | Some prep_lines \<Rightarrow>
          (case enforce_loop [] prep_lines of
             (_, False) \<Rightarrow> Inr f
           | (memory, True) \<Rightarrow> Inr (f\<lparr>prep := Some memory\<rparr>)))"

subsection \<open>Copying files\<close>

text \<open>
  \<open>glob_match pattern n\<close>: the file name \<open>n\<close> matches the pattern of one path component,
  as \<^verbatim>\<open>Path.glob\<close> decides it with \<^verbatim>\<open>fnmatch\<close>: \<^verbatim>\<open>*\<close> stands for any characters, also
  none and also a leading dot, \<^verbatim>\<open>?\<close> for one character, any other character for itself.
  Bracket expressions are not modelled; no pattern of the module has one.
\<close>

fun glob_match :: "string \<Rightarrow> string \<Rightarrow> bool" where
  "glob_match [] n = (n = [])"
| "glob_match (p # ps) [] = (p = CHR ''*'' \<and> glob_match ps [])"
| "glob_match (p # ps) (c # cs) =
     (if p = CHR ''*'' then glob_match ps (c # cs) \<or> glob_match (p # ps) cs
      else (p = CHR ''?'' \<or> p = c) \<and> glob_match ps cs)"

text \<open>
  A directory of regular files: the origin as a listing of names with contents, the
  destination as a map from names to contents. \<open>glob origin pattern\<close> is
  \<^verbatim>\<open>set(origin.glob(pattern))\<close>, each path given by its name.
\<close>

definition glob :: "(string \<times> string) list \<Rightarrow> string \<Rightarrow> string set" where
  "glob origin pattern = set (filter (glob_match pattern) (map fst origin))"

text \<open>
  The set \<^verbatim>\<open>files_to_copy\<close> that \<^verbatim>\<open>_copy_files\<close> has built when it reaches its last loop.
  \<^verbatim>\<open>if include_files:\<close> skips \<^verbatim>\<open>None\<close> and the empty list alike.
\<close>

definition files_to_copy ::
    "(string \<times> string) list \<Rightarrow> string \<Rightarrow> bool \<Rightarrow> bool \<Rightarrow> string list option \<Rightarrow> string set" where
  "files_to_copy origin glb ignore_tarballs ignore_patches include_files =
     (let present_files = glob origin glb;
          files_to_copy = {};
          files_to_copy =
            (case include_files of
               None \<Rightarrow> files_to_copy
             | Some incl \<Rightarrow> fold (\<lambda>i acc. acc \<union> glob origin i) incl files_to_copy);
          present_files =
            (if ignore_tarballs
             then fold (\<lambda>e acc. acc - glob origin e)
                    [''*.tar.gz'', ''*.tar.xz'', ''*.tar.bz2''] present_files
             else present_files);
          present_files =
            (if ignore_patches then present_files - glob origin ''*.patch''
             else present_files)
      in files_to_copy \<union> present_files)"

text \<open>
  \<open>copy_files\<close> is \<^verbatim>\<open>_copy_files\<close>: the destination directory after the call. The last
  loop copies each chosen file under its own name, so the order in which the set is
  walked does not matter: a chosen name gets the origin's content, any other name keeps
  what the destination had.
\<close>

definition copy_files ::
    "(string \<times> string) list \<Rightarrow> (string \<rightharpoonup> string) \<Rightarrow> string \<Rightarrow> bool \<Rightarrow> bool
       \<Rightarrow> string list option \<Rightarrow> (string \<rightharpoonup> string)" where
  "copy_files origin dest glb ignore_tarballs ignore_patches include_files =
     (\<lambda>file_name.
        if file_name \<in> files_to_copy origin glb ignore_tarballs ignore_patches include_files
        then map_of origin file_name
        else dest file_name)"

text \<open>
  What \<^verbatim>\<open>_copy_files\<close> sees as \<^verbatim>\<open>include_files\<close> when it is given a hook's value: a list
  of patterns as it is; a string would be walked character by character by
  \<^verbatim>\<open>for i in include_files\<close>.
\<close>

definition include_patterns :: "hook_value option \<Rightarrow> string list option" where
  "include_patterns h =
     (case h of
        None \<Rightarrow> None
      | Some (Files patterns) \<Rightarrow> Some patterns
      | Some (Command c) \<Rightarrow> Some (map (\<lambda>x. [x]) c))"

text \<open>
  \<open>copy_all_sources\<close>: \<open>origin\<close> lists \<^verbatim>\<open>dist_git_path / "SOURCES"\<close>, \<open>dest\<close> is the content of
  \<^verbatim>\<open>source_git_path / "SPECS"\<close>; the result is that content after the call. Joining
  \<^verbatim>\<open>None\<close> with a name raises \<open>TypeError\<close>.
\<close>

definition copy_all_sources ::
    "path option \<Rightarrow> path option \<Rightarrow> (string \<times> string) list \<Rightarrow> (string \<rightharpoonup> string)
       \<Rightarrow> error + (string \<rightharpoonup> string)" where
  "copy_all_sources dist_git_path source_git_path origin dest =
     (if dist_git_path = None \<or> source_git_path = None then Inl TypeError
      else
        (case package_hook dist_git_path source_git_path INCLUDE_SOURCES of
           Inl e \<Rightarrow> Inl e
         | Inr include_files \<Rightarrow>
             Inr (copy_files origin dest ''*'' True True (include_patterns include_files))))"

subsection \<open>The git repository\<close>

text \<open>
  What a commit records beside its parent: the message, and the change it makes to the
  tree (with the author's name and date), here a number that stands for it.

  A commit's hash covers its own data and the hash of its parent, so a commit is
  identified with the chain of commit data from itself back to the root, newest first:
  the head of the list is the commit, the tail is its parent. Histories are chains;
  merge commits are not modelled. A branch or a tag that does not exist has the empty
  chain. \<open>head\<close> is the branch that is checked out; while it has no commit it is unborn, as
  after \<^verbatim>\<open>git checkout --orphan\<close>.
\<close>

record git_commit =
  message :: string
  change :: nat

type_synonym history = "git_commit list"

record repo =
  branches :: "string \<Rightarrow> history"
  tags :: "string \<Rightarrow> history"
  head :: string

text \<open>The repository that \<^verbatim>\<open>git.Repo.init\<close> creates: no commit, \<^verbatim>\<open>master\<close> unborn.\<close>

definition empty_repo :: repo where
  "empty_repo = \<lparr>branches = (\<lambda>_. []), tags = (\<lambda>_. []), head = ''master''\<rparr>"

text \<open>
  Every operation returns \<open>None\<close> where git exits with an error and GitPython raises
  \<^verbatim>\<open>GitCommandError\<close>. Changes are taken to apply cleanly: conflicts are not modelled.
\<close>

text \<open>\<open>is_ancestor a b\<close>: the commit \<open>a\<close> is \<open>b\<close> or can be reached from \<open>b\<close>.\<close>

definition is_ancestor :: "history \<Rightarrow> history \<Rightarrow> bool" where
  "is_ancestor a b = (length a \<le> length b \<and> drop (length b - length a) b = a)"

text \<open>
  \<^verbatim>\<open>GitRepo.checkout\<close>. With \<open>orphan\<close>: \<^verbatim>\<open>git checkout --orphan=branch\<close>, which starts an
  unborn branch and fails when the branch exists. With \<open>create_branch\<close>:
  \<^verbatim>\<open>git checkout -B branch\<close>, which creates the branch at the current commit, or resets it
  to there, and switches to it. Otherwise \<^verbatim>\<open>git checkout branch\<close>, which fails when
  there is no such branch.
\<close>

definition checkout :: "string \<Rightarrow> bool \<Rightarrow> bool \<Rightarrow> repo \<Rightarrow> repo option" where
  "checkout branch orphan create_branch r =
     (if orphan
      then (if branches r branch \<noteq> [] then None else Some (r\<lparr>head := branch\<rparr>))
      else if create_branch
      then Some (r\<lparr>branches := (branches r)(branch := branches r (head r)), head := branch\<rparr>)
      else (if branches r branch = [] then None else Some (r\<lparr>head := branch\<rparr>)))"

text \<open>
  \<^verbatim>\<open>GitRepo.commit\<close>: \<^verbatim>\<open>git commit --allow-empty -m message\<close> puts a commit with the
  staged change on the current branch. git ends the one-line message with a line feed.
\<close>

definition commit :: "string \<Rightarrow> nat \<Rightarrow> repo \<Rightarrow> repo" where
  "commit msg staged r =
     r\<lparr>branches := (branches r)
          (head r := \<lparr>message = msg @ [CHR 0x0A], change = staged\<rparr> # branches r (head r))\<rparr>"

text \<open>
  \<^verbatim>\<open>GitRepo.fetch\<close> with the refspec \<^verbatim>\<open>+source:dest\<close>: \<open>remote\<close> is the history of the source
  branch in the repository fetched from. git refuses to fetch into the branch that is
  checked out.
\<close>

definition fetch :: "history \<Rightarrow> string \<Rightarrow> repo \<Rightarrow> repo option" where
  "fetch remote dest_branch r =
     (if remote = [] \<or> head r = dest_branch then None
      else Some (r\<lparr>branches := (branches r)(dest_branch := remote)\<rparr>))"

text \<open>\<^verbatim>\<open>GitRepo.create_tag\<close>: \<^verbatim>\<open>git tag -f tag branch\<close>.\<close>

definition create_tag :: "string \<Rightarrow> string \<Rightarrow> repo \<Rightarrow> repo option" where
  "create_tag tag branch r =
     (if branches r branch = [] then None
      else Some (r\<lparr>tags := (tags r)(tag := branches r branch)\<rparr>))"

text \<open>
  \<^verbatim>\<open>repo.iter_commits(branch)\<close>: the commits that can be reached from the branch, newest
  first.
\<close>

definition iter_commits :: "string \<Rightarrow> repo \<Rightarrow> git_commit list option" where
  "iter_commits branch r =
     (if branches r branch = [] then None else Some (branches r branch))"

text \<open>The revision \<^verbatim>\<open>branch~k\<close>: the \<open>k\<close>-th ancestor of the tip of the branch.\<close>

definition rev_parse :: "string \<Rightarrow> nat \<Rightarrow> repo \<Rightarrow> history option" where
  "rev_parse branch k r =
     (case drop k (branches r branch) of [] \<Rightarrow> None | c # cs \<Rightarrow> Some (c # cs))"

text \<open>
  \<^verbatim>\<open>git cherry-pick branch~k\<close>: a new commit on the current branch with the message and
  the change of the picked commit.
\<close>

definition cherry_pick :: "string \<Rightarrow> nat \<Rightarrow> repo \<Rightarrow> repo option" where
  "cherry_pick branch k r =
     (case rev_parse branch k r of
        None \<Rightarrow> None
      | Some picked \<Rightarrow>
          Some (r\<lparr>branches := (branches r)(head r := hd picked # branches r (head r))\<rparr>))"

definition cherry_pick_base :: "string \<Rightarrow> string \<Rightarrow> repo \<Rightarrow> repo option" where
  "cherry_pick_base from_branch to_branch r =
     do {
       commits \<leftarrow> iter_commits from_branch r;
       let num_commits = length commits;
       r \<leftarrow> checkout to_branch False True r;
       cherry_pick from_branch (num_commits - 1) r
     }"

text \<open>\<^verbatim>\<open>repo.head.commit\<close>; GitPython raises when the current branch has no commit.\<close>

definition head_commit :: "repo \<Rightarrow> git_commit option" where
  "head_commit r = (case branches r (head r) of [] \<Rightarrow> None | c # _ \<Rightarrow> Some c)"

text \<open>\<^verbatim>\<open>git reset --hard HEAD^\<close>: fails when the current commit has no parent.\<close>

definition reset_hard_parent :: "repo \<Rightarrow> repo option" where
  "reset_hard_parent r =
     (case branches r (head r) of
        _ # p # ps \<Rightarrow> Some (r\<lparr>branches := (branches r)(head r := p # ps)\<rparr>)
      | _ \<Rightarrow> None)"

text \<open>
  \<^verbatim>\<open>git rebase --root --onto newbase\<close>, as this program uses it: the current branch is the
  expanded history, which has no commit of its own on the new base, and the change of its
  root is on the new base already, put there by \<open>cherry_pick_base\<close>. git skips a change
  that the new base contains, so the root is left out; every other commit is replayed on
  the tip of the new base, in order, with its message and change.
\<close>

definition rebase_root_onto :: "string \<Rightarrow> repo \<Rightarrow> repo option" where
  "rebase_root_onto newbase r =
     (if branches r (head r) = [] \<or> branches r newbase = [] then None
      else Some (r\<lparr>branches := (branches r)
                     (head r := butlast (branches r (head r)) @ branches r newbase)\<rparr>))"

text \<open>
  \<^verbatim>\<open>git merge --ff-only -q branch\<close>: moves the current branch to the tip of \<open>branch\<close> when
  the current commit is an ancestor of it, does nothing when \<open>branch\<close> is merged already,
  and fails otherwise.
\<close>

definition merge_ff_only :: "string \<Rightarrow> repo \<Rightarrow> repo option" where
  "merge_ff_only branch r =
     (if branches r branch = [] then None
      else if is_ancestor (branches r (head r)) (branches r branch)
      then Some (r\<lparr>branches := (branches r)(head r := branches r branch)\<rparr>)
      else if is_ancestor (branches r branch) (branches r (head r)) then Some r
      else None)"

text \<open>
  \<^verbatim>\<open>git branch -d branch\<close>: fails when there is no such branch, when it is checked out,
  and when it is not merged into the current commit.
\<close>

definition branch_delete :: "string \<Rightarrow> repo \<Rightarrow> repo option" where
  "branch_delete branch r =
     (if branches r branch = [] \<or> head r = branch
         \<or> \<not> is_ancestor (branches r branch) (branches r (head r))
      then None
      else Some (r\<lparr>branches := (branches r)(branch := [])\<rparr>))"

subsection \<open>Reshaping the history\<close>

definition rebase_patches :: "string \<Rightarrow> string \<Rightarrow> repo \<Rightarrow> repo option" where
  "rebase_patches from_branch to_branch r =
     do {
       r \<leftarrow> checkout from_branch False False r;
       c \<leftarrow> head_commit r;
       r \<leftarrow> (if message c = ''Changes after running %prep'' @ [CHR 0x0A]
             then do {
               r \<leftarrow> checkout to_branch False False r;
               r \<leftarrow> cherry_pick from_branch 0 r;
               r \<leftarrow> create_tag START_TAG to_branch r;
               r \<leftarrow> checkout from_branch False False r;
               reset_hard_parent r
             }
             else Some r);
       r \<leftarrow> rebase_root_onto to_branch r;
       r \<leftarrow> checkout to_branch False False r;
       r \<leftarrow> merge_ff_only from_branch r;
       branch_delete from_branch r
     }"

text \<open>
  \<^verbatim>\<open>Dist2Src.convert\<close>, as far as it acts on the source-git repository. What it does to
  the dist-git repository and outside git (\<^verbatim>\<open>fetch_archive\<close>, \<^verbatim>\<open>run_prep\<close>, the commit of
  "Changes after running %prep", writing and copying files) enters as parameters:
  \<open>expanded\<close> is the history of \<^verbatim>\<open>master\<close> in the build directory, which \<^verbatim>\<open>fetch_branch\<close>
  fetches; \<open>packit_config\<close>, \<open>spec_file\<close> and \<open>sources\<close> are the changes staged for the three
  commits.
\<close>

definition convert ::
    "string \<Rightarrow> history \<Rightarrow> nat \<Rightarrow> nat \<Rightarrow> nat \<Rightarrow> repo \<Rightarrow> repo option" where
  "convert dest_branch expanded packit_config spec_file sources r =
     do {
       r \<leftarrow> checkout dest_branch True False r;
       r \<leftarrow> fetch expanded TEMP_SG_BRANCH r;
       r \<leftarrow> cherry_pick_base TEMP_SG_BRANCH dest_branch r;
       let r = commit ''.packit.yaml'' packit_config r;
       let r = commit ''Add spec-file for the distribution'' spec_file r;
       let r = commit ''Add sources defined in the spec file'' sources r;
       r \<leftarrow> create_tag START_TAG dest_branch r;
       rebase_patches TEMP_SG_BRANCH dest_branch r
     }"

subsection \<open>Notions used in the statements\<close>

text \<open>
  A line that makes \<^verbatim>\<open>_enforce_autosetup\<close> return, and what the loop leaves of a line that
  does not.
\<close>

definition uses_auto :: "string \<Rightarrow> bool" where
  "uses_auto line = (startswith line ''%autosetup'' \<or> startswith line ''%autopatch'')"

definition rewritten :: "string \<Rightarrow> string" where
  "rewritten line =
     (if startswith line ''%setup''
      then re_sub_quiet (replace ''%setup'' ''%autosetup -N'' line) else line)"



text \<open>
  The message by which \<open>rebase_patches\<close> knows the commit of what \<^verbatim>\<open>%prep\<close> left behind,
  as git stores the message \<^verbatim>\<open>Changes after running %prep\<close>.
\<close>

definition prep_commit_message :: string where
  "prep_commit_message = ''Changes after running %prep'' @ [CHR 0x0A]"

text \<open>
  The destination branch as \<open>convert\<close> has built it when it sets the tag: the root of the
  expanded history, then the three commits of \<open>convert\<close>; the newest, at the head, is the
  commit "Add sources defined in the spec file".
\<close>

definition upstream_commits :: "git_commit \<Rightarrow> nat \<Rightarrow> nat \<Rightarrow> nat \<Rightarrow> history" where
  "upstream_commits root packit_config spec_file sources =
     [\<lparr>message = ''Add sources defined in the spec file'' @ [CHR 0x0A], change = sources\<rparr>,
      \<lparr>message = ''Add spec-file for the distribution'' @ [CHR 0x0A], change = spec_file\<rparr>,
      \<lparr>message = ''.packit.yaml'' @ [CHR 0x0A], change = packit_config\<rparr>,
      root]"


section \<open>Properties\<close>

subsection \<open>The build directory\<close>

text \<open>
  C5. When \<^verbatim>\<open>BUILD\<close> exists, \<open>get_build_dir\<close> raises a \<open>RuntimeError\<close> exactly when the
  number of its subdirectories is not one: "No subdirectory found" for none, "More than one
  directory found" for two or more. With exactly one subdirectory \<open>d\<close> it returns
  \<^verbatim>\<open>path/BUILD/d\<close>.
\<close>

theorem get_build_dir_one_subdirectory:
  "((\<exists>msg. get_build_dir p (Some entries) = Inl (RuntimeError msg))
      \<longleftrightarrow> length (filter snd entries) \<noteq> 1)
   \<and> (length (filter snd entries) = 0 \<longrightarrow>
        get_build_dir p (Some entries)
          = Inl (RuntimeError (''No subdirectory found in '' @ str_path p)))
   \<and> (length (filter snd entries) > 1 \<longrightarrow>
        get_build_dir p (Some entries)
          = Inl (RuntimeError (''More than one directory found in '' @ str_path p)))
   \<and> (\<forall>d. map fst (filter snd entries) = [d] \<longrightarrow>
        get_build_dir p (Some entries) = Inr (joinpath (joinpath p ''BUILD'') d))"
proof -
  let ?dirs = "filter snd entries"
  have eq: "filter (\<lambda>(_, is_dir). is_dir) entries = ?dirs"
    by (simp add: case_prod_unfold)
  consider (none) "length ?dirs = 0" | (one) "length ?dirs = 1" | (many) "length ?dirs > 1"
    by arith
  then show ?thesis
  proof cases
    case none
    then show ?thesis
      by (simp add: get_build_dir_def eq)
  next
    case one
    then obtain d b where "?dirs = [(d, b)]"
      by (cases ?dirs) auto
    then show ?thesis
      by (simp add: get_build_dir_def eq)
  next
    case many
    then have "map fst ?dirs \<noteq> [d]" for d
      by (cases ?dirs) auto
    with many show ?thesis
      by (simp add: get_build_dir_def eq)
  qed
qed

theorem get_build_dir_one_subdirectory_witness:
  "get_build_dir \<lparr>absolute = True, parts = [''w'', ''zlib'']\<rparr>
       (Some [(''zlib-1.2.11'', True), (''notes.txt'', False)])
     = Inr \<lparr>absolute = True, parts = [''w'', ''zlib'', ''BUILD'', ''zlib-1.2.11'']\<rparr>
   \<and> get_build_dir \<lparr>absolute = True, parts = [''w'', ''zlib'']\<rparr> (Some [(''notes.txt'', False)])
     = Inl (RuntimeError ''No subdirectory found in /w/zlib'')
   \<and> get_build_dir \<lparr>absolute = True, parts = [''w'', ''zlib'']\<rparr>
       (Some [(''a'', True), (''b'', True)])
     = Inl (RuntimeError ''More than one directory found in /w/zlib'')"
  using get_build_dir_one_subdirectory
          [of "\<lparr>absolute = True, parts = [''w'', ''zlib'']\<rparr>"
              "[(''zlib-1.2.11'', True), (''notes.txt'', False)]"]
        get_build_dir_one_subdirectory
          [of "\<lparr>absolute = True, parts = [''w'', ''zlib'']\<rparr>" "[(''notes.txt'', False)]"]
        get_build_dir_one_subdirectory
          [of "\<lparr>absolute = True, parts = [''w'', ''zlib'']\<rparr>" "[(''a'', True), (''b'', True)]"]
  by (simp add: joinpath_def str_path_def)

subsection \<open>Package identity\<close>

text \<open>
  C9. The package name is the last component of the dist-git path when that path is given,
  else the last component of the source-git path when that one is given; resolution fails
  exactly when both are missing. The resolved name is the one in \<^verbatim>\<open>SPECS/<name>.spec\<close> and
  the one the hook registry is asked with; when resolution fails, both fail with the same
  error.
\<close>

theorem package_name_resolution:
  "(\<forall>p. dist_git_path = Some p \<longrightarrow> package_name dist_git_path source_git_path = Inr (name p))
   \<and> (\<forall>p. dist_git_path = None \<and> source_git_path = Some p \<longrightarrow>
          package_name dist_git_path source_git_path = Inr (name p))
   \<and> ((\<exists>e. package_name dist_git_path source_git_path = Inl e)
          \<longleftrightarrow> dist_git_path = None \<and> source_git_path = None)
   \<and> (\<forall>n. package_name dist_git_path source_git_path = Inr n \<longrightarrow>
          relative_specfile_path dist_git_path source_git_path = Inr (''SPECS/'' @ n @ ''.spec'')
          \<and> package_hook dist_git_path source_git_path hook_name = Inr (get_hook n hook_name))
   \<and> (\<forall>e. package_name dist_git_path source_git_path = Inl e \<longrightarrow>
          relative_specfile_path dist_git_path source_git_path = Inl e
          \<and> package_hook dist_git_path source_git_path hook_name = Inl e)"
  by (cases dist_git_path; cases source_git_path)
     (simp_all add: package_name_def relative_specfile_path_def package_hook_def)

theorem package_name_resolution_witness:
  "package_name (Some \<lparr>absolute = True, parts = [''w'', ''rpms'', ''pacemaker'']\<rparr>) None
     = Inr ''pacemaker''
   \<and> relative_specfile_path (Some \<lparr>absolute = True, parts = [''w'', ''rpms'', ''pacemaker'']\<rparr>) None
     = Inr ''SPECS/pacemaker.spec''
   \<and> package_hook (Some \<lparr>absolute = True, parts = [''w'', ''rpms'', ''pacemaker'']\<rparr>) None
       ''include-files''
     = Inr (Some (Files [''nagios-agents-metadata-*.tar.gz'']))
   \<and> package_name None (Some \<lparr>absolute = False, parts = [''zlib'']\<rparr>) = Inr ''zlib''
   \<and> (\<exists>e. package_name None None = Inl e)"
  using package_name_resolution
          [of "Some \<lparr>absolute = True, parts = [''w'', ''rpms'', ''pacemaker'']\<rparr>" None
              "''include-files''"]
        package_name_resolution [of None "Some \<lparr>absolute = False, parts = [''zlib'']\<rparr>"]
        package_name_resolution [of None None]
  by (simp add: name_def get_hook_def HOOKS_def INCLUDE_SOURCES_def AFTER_PREP_HOOK_def)

subsection \<open>Normalising the spec file\<close>

lemma enforce_loop_no_auto:
  "\<forall>l \<in> set todo. \<not> uses_auto l \<Longrightarrow>
     enforce_loop acc todo = (acc @ map rewritten todo, True)"
  by (induction todo arbitrary: acc) (simp_all add: uses_auto_def rewritten_def)

lemma enforce_loop_auto:
  "\<forall>l \<in> set a. \<not> uses_auto l \<Longrightarrow> uses_auto l \<Longrightarrow>
     enforce_loop acc (a @ l # b) = (acc @ map rewritten a @ l # b, False)"
  by (induction a arbitrary: acc) (simp_all add: uses_auto_def rewritten_def)

lemma first_auto_line:
  "\<exists>l \<in> set ls. uses_auto l \<Longrightarrow>
     \<exists>a l b. ls = a @ l # b \<and> (\<forall>x \<in> set a. \<not> uses_auto x) \<and> uses_auto l"
  using split_list_first_prop [of ls uses_auto] by blast

lemma rewritten_setup_q_n_foo: "rewritten ''%setup -q -n foo'' = ''%autosetup -N -n foo''"
  by (simp add: rewritten_def startswith_def isspace_def)

text \<open>
  C3. In a \<^verbatim>\<open>%prep\<close> section with no line starting with \<^verbatim>\<open>%autosetup\<close> or
  \<^verbatim>\<open>%autopatch\<close>, the line \<^verbatim>\<open>%setup -q -n foo\<close> is saved as \<^verbatim>\<open>%autosetup -N -n foo\<close>:
  \<^verbatim>\<open>-q\<close> is gone, \<^verbatim>\<open>-n foo\<close> is kept. A spec file whose \<^verbatim>\<open>%prep\<close> section has the line
  \<^verbatim>\<open>%autosetup -p1\<close> is left as it was.
\<close>

theorem enforce_autosetup_examples:
  "((\<forall>l \<in> set before \<union> set after. \<not> uses_auto l) \<longrightarrow>
      enforce_autosetup \<lparr>prep = Some (before @ [''%setup -q -n foo''] @ after), other_sections = os\<rparr>
        = Inr \<lparr>prep = Some (map rewritten before @ [''%autosetup -N -n foo'']
                              @ map rewritten after),
               other_sections = os\<rparr>)
   \<and> (''%autosetup -p1'' \<in> set ls \<longrightarrow>
        enforce_autosetup \<lparr>prep = Some ls, other_sections = os\<rparr>
          = Inr \<lparr>prep = Some ls, other_sections = os\<rparr>)"
proof (intro conjI impI)
  assume "\<forall>l \<in> set before \<union> set after. \<not> uses_auto l"
  moreover have "\<not> uses_auto ''%setup -q -n foo''"
    by (simp add: uses_auto_def startswith_def)
  ultimately have "\<forall>l \<in> set (before @ [''%setup -q -n foo''] @ after). \<not> uses_auto l"
    by auto
  then have "enforce_loop [] (before @ [''%setup -q -n foo''] @ after)
               = (map rewritten (before @ [''%setup -q -n foo''] @ after), True)"
    using enforce_loop_no_auto [of "before @ [''%setup -q -n foo''] @ after" "[]"] by simp
  then show "enforce_autosetup
               \<lparr>prep = Some (before @ [''%setup -q -n foo''] @ after), other_sections = os\<rparr>
             = Inr \<lparr>prep = Some (map rewritten before @ [''%autosetup -N -n foo'']
                                  @ map rewritten after),
                    other_sections = os\<rparr>"
    by (simp add: enforce_autosetup_def rewritten_setup_q_n_foo)
next
  assume "''%autosetup -p1'' \<in> set ls"
  moreover have "uses_auto ''%autosetup -p1''"
    by (simp add: uses_auto_def startswith_def)
  ultimately have "\<exists>l \<in> set ls. uses_auto l"
    by blast
  then obtain a l b where "ls = a @ l # b" "\<forall>x \<in> set a. \<not> uses_auto x" "uses_auto l"
    using first_auto_line by blast
  then have "enforce_loop [] ls = (map rewritten a @ l # b, False)"
    using enforce_loop_auto [of a l "[]" b] by simp
  then show "enforce_autosetup \<lparr>prep = Some ls, other_sections = os\<rparr>
             = Inr \<lparr>prep = Some ls, other_sections = os\<rparr>"
    by (simp add: enforce_autosetup_def)
qed

theorem enforce_autosetup_examples_witness:
  "enforce_autosetup
       \<lparr>prep = Some [''cd /tmp'', ''%setup -q -n foo'', ''%patch0 -p1''], other_sections = [''Name: foo'']\<rparr>
     = Inr \<lparr>prep = Some [''cd /tmp'', ''%autosetup -N -n foo'', ''%patch0 -p1''],
            other_sections = [''Name: foo'']\<rparr>
   \<and> enforce_autosetup \<lparr>prep = Some [''%autosetup -p1''], other_sections = [''Name: foo'']\<rparr>
     = Inr \<lparr>prep = Some [''%autosetup -p1''], other_sections = [''Name: foo'']\<rparr>"
  using enforce_autosetup_examples
          [of "[''cd /tmp'']" "[''%patch0 -p1'']" "[''Name: foo'']" "[''%autosetup -p1'']"]
  by (simp add: uses_auto_def rewritten_def startswith_def)

text \<open>
  C10. The loop reaches \<^verbatim>\<open>s.save()\<close> exactly when no line of the \<^verbatim>\<open>%prep\<close> section starts
  with \<^verbatim>\<open>%autosetup\<close> or \<^verbatim>\<open>%autopatch\<close>. When there is such a line the file on disk is
  left as it was, although the lines before the first such line have been rewritten in
  memory; when there is none, every line is saved as the loop rewrote it.
\<close>

theorem enforce_autosetup_saves_iff:
  "(snd (enforce_loop [] ls) \<longleftrightarrow> (\<forall>l \<in> set ls. \<not> uses_auto l))
   \<and> ((\<exists>l \<in> set ls. uses_auto l) \<longrightarrow>
        enforce_autosetup \<lparr>prep = Some ls, other_sections = os\<rparr>
          = Inr \<lparr>prep = Some ls, other_sections = os\<rparr>)
   \<and> (\<forall>a l b. ls = a @ l # b \<and> (\<forall>x \<in> set a. \<not> uses_auto x) \<and> uses_auto l \<longrightarrow>
        enforce_loop [] ls = (map rewritten a @ l # b, False))
   \<and> ((\<forall>l \<in> set ls. \<not> uses_auto l) \<longrightarrow>
        enforce_autosetup \<lparr>prep = Some ls, other_sections = os\<rparr>
          = Inr \<lparr>prep = Some (map rewritten ls), other_sections = os\<rparr>)"
proof -
  have early: "enforce_loop [] ls = (map rewritten a @ l # b, False)"
    if "ls = a @ l # b" "\<forall>x \<in> set a. \<not> uses_auto x" "uses_auto l" for a l b
    using that enforce_loop_auto [of a l "[]" b] by simp
  have full: "enforce_loop [] ls = (map rewritten ls, True)" if "\<forall>l \<in> set ls. \<not> uses_auto l"
    using that enforce_loop_no_auto [of ls "[]"] by simp
  have unsaved: "snd (enforce_loop [] ls) = False" if "\<exists>l \<in> set ls. uses_auto l"
    using first_auto_line [OF that] early by fastforce
  have "snd (enforce_loop [] ls) \<longleftrightarrow> (\<forall>l \<in> set ls. \<not> uses_auto l)"
    using unsaved full by (cases "\<exists>l \<in> set ls. uses_auto l") auto
  moreover have "enforce_autosetup \<lparr>prep = Some ls, other_sections = os\<rparr>
                   = Inr \<lparr>prep = Some ls, other_sections = os\<rparr>"
    if "\<exists>l \<in> set ls. uses_auto l"
    using unsaved [OF that] by (cases "enforce_loop [] ls") (simp add: enforce_autosetup_def)
  moreover have "enforce_autosetup \<lparr>prep = Some ls, other_sections = os\<rparr>
                   = Inr \<lparr>prep = Some (map rewritten ls), other_sections = os\<rparr>"
    if "\<forall>l \<in> set ls. \<not> uses_auto l"
    using full [OF that] by (simp add: enforce_autosetup_def)
  ultimately show ?thesis
    using early by blast
qed

theorem enforce_autosetup_saves_iff_witness:
  "enforce_loop [] [''%setup -q'', ''%autopatch -p1'', ''%setup -q'']
     = ([''%autosetup -N'', ''%autopatch -p1'', ''%setup -q''], False)
   \<and> enforce_autosetup
       \<lparr>prep = Some [''%setup -q'', ''%autopatch -p1'', ''%setup -q''], other_sections = []\<rparr>
     = Inr \<lparr>prep = Some [''%setup -q'', ''%autopatch -p1'', ''%setup -q''], other_sections = []\<rparr>
   \<and> enforce_autosetup \<lparr>prep = Some [''%setup -q'', ''make''], other_sections = []\<rparr>
     = Inr \<lparr>prep = Some [''%autosetup -N'', ''make''], other_sections = []\<rparr>"
  using enforce_autosetup_saves_iff
          [of "[''%setup -q'', ''%autopatch -p1'', ''%setup -q'']" "[]"]
        enforce_autosetup_saves_iff [of "[''%setup -q'', ''make'']" "[]"]
  by (simp add: uses_auto_def rewritten_def startswith_def isspace_def)

subsection \<open>Copying files\<close>









text \<open>
  C7. Copying is idempotent: \<^verbatim>\<open>_copy_files\<close> run a second time with the same origin,
  pattern, flags and include list, on the destination the first run left, leaves that
  destination as it is, names and contents; and so does \<^verbatim>\<open>copy_all_sources\<close>.
\<close>

theorem copy_files_idempotent:
  "copy_files origin (copy_files origin dest glb ignore_tarballs ignore_patches include_files)
       glb ignore_tarballs ignore_patches include_files
     = copy_files origin dest glb ignore_tarballs ignore_patches include_files
   \<and> (\<forall>dest'. copy_all_sources dist_git_path source_git_path origin dest = Inr dest' \<longrightarrow>
          copy_all_sources dist_git_path source_git_path origin dest' = Inr dest')"
proof
  show "copy_files origin (copy_files origin dest glb ignore_tarballs ignore_patches include_files)
          glb ignore_tarballs ignore_patches include_files
        = copy_files origin dest glb ignore_tarballs ignore_patches include_files"
    by (rule ext) (simp add: copy_files_def)
  show "\<forall>dest'. copy_all_sources dist_git_path source_git_path origin dest = Inr dest' \<longrightarrow>
          copy_all_sources dist_git_path source_git_path origin dest' = Inr dest'"
    by (auto simp: copy_all_sources_def copy_files_def fun_eq_iff split: if_splits sum.splits)
qed

theorem copy_files_idempotent_witness:
  "copy_all_sources (Some \<lparr>absolute = True, parts = [''w'', ''rpms'', ''zlib'']\<rparr>)
       (Some \<lparr>absolute = True, parts = [''w'', ''source-git'', ''zlib'']\<rparr>)
       [(''zlib-1.2.11.tar.xz'', ''archive''), (''zlib.conf'', ''conf'')]
       (copy_files [(''zlib-1.2.11.tar.xz'', ''archive''), (''zlib.conf'', ''conf'')]
          [''zlib.spec'' \<mapsto> ''spec''] ''*'' True True None)
     = Inr (copy_files [(''zlib-1.2.11.tar.xz'', ''archive''), (''zlib.conf'', ''conf'')]
              [''zlib.spec'' \<mapsto> ''spec''] ''*'' True True None)
   \<and> copy_files [(''zlib-1.2.11.tar.xz'', ''archive''), (''zlib.conf'', ''conf'')]
         [''zlib.spec'' \<mapsto> ''spec''] ''*'' True True None ''zlib.conf'' = Some ''conf''"
proof -
  let ?d = "Some \<lparr>absolute = True, parts = [''w'', ''rpms'', ''zlib'']\<rparr>"
  let ?s = "Some \<lparr>absolute = True, parts = [''w'', ''source-git'', ''zlib'']\<rparr>"
  let ?origin = "[(''zlib-1.2.11.tar.xz'', ''archive''), (''zlib.conf'', ''conf'')]"
  let ?dest = "[''zlib.spec'' \<mapsto> ''spec'']"
  have first: "copy_all_sources ?d ?s ?origin ?dest
                 = Inr (copy_files ?origin ?dest ''*'' True True None)"
    by (simp add: copy_all_sources_def package_hook_def package_name_def name_def get_hook_def
          HOOKS_def include_patterns_def)
  have "copy_files ?origin ?dest ''*'' True True None ''zlib.conf'' = Some ''conf''"
    by (simp add: copy_files_def files_to_copy_def glob_def)
  with first copy_files_idempotent [of ?origin ?dest "''*''" True True None ?d ?s]
  show ?thesis
    by blast
qed



subsection \<open>Picking the first commit\<close>

lemma drop_to_last: "h \<noteq> [] \<Longrightarrow> drop (length h - Suc 0) h = [last h]"
proof -
  assume "h \<noteq> []"
  then have "h = butlast h @ [last h]"
    by simp
  then have "drop (length (butlast h)) h = [last h]"
    by (metis append_eq_conv_conj)
  then show ?thesis
    by simp
qed



subsection \<open>Reshaping the history\<close>

lemma is_ancestor_append: "is_ancestor d (xs @ d)"
  by (simp add: is_ancestor_def)

lemma is_ancestor_refl: "is_ancestor d d"
  by (simp add: is_ancestor_def)

lemma rebase_patches_plain:
  assumes "from_branch \<noteq> to_branch" "branches r from_branch = c # cs"
    "message c \<noteq> prep_commit_message" "branches r to_branch = d" "d \<noteq> []"
  shows "rebase_patches from_branch to_branch r
           = Some (r\<lparr>branches := (branches r)(from_branch := [], to_branch := butlast (c # cs) @ d),
                     head := to_branch\<rparr>)"
  using assms
  by (simp add: rebase_patches_def checkout_def head_commit_def rebase_root_onto_def
        merge_ff_only_def branch_delete_def fun_upd_twist is_ancestor_append
        is_ancestor_refl prep_commit_message_def)

lemma rebase_patches_relocate:
  assumes "from_branch \<noteq> to_branch" "branches r from_branch = c # p # ps"
    "message c = prep_commit_message" "branches r to_branch = d" "d \<noteq> []"
  shows "rebase_patches from_branch to_branch r
           = Some (r\<lparr>branches := (branches r)(from_branch := [], to_branch := butlast (p # ps) @ c # d),
                     tags := (tags r)(START_TAG := c # d),
                     head := to_branch\<rparr>)"
  using assms is_ancestor_append [of "c # d" "butlast (p # ps)"]
  by (simp add: rebase_patches_def checkout_def head_commit_def rebase_root_onto_def
        merge_ff_only_def branch_delete_def cherry_pick_def rev_parse_def create_tag_def
        reset_hard_parent_def fun_upd_twist prep_commit_message_def is_ancestor_refl)

lemma rebase_patches_root_only:
  assumes "branches r from_branch = [c]" "message c = prep_commit_message"
  shows "rebase_patches from_branch to_branch r = None"
  using assms
  by (cases "from_branch = to_branch")
     (simp_all add: rebase_patches_def checkout_def head_commit_def cherry_pick_def
        rev_parse_def create_tag_def reset_hard_parent_def prep_commit_message_def
        rebase_root_onto_def merge_ff_only_def branch_delete_def is_ancestor_refl)





subsection \<open>The boundary tag\<close>

lemma convert_upto_tag:
  assumes "branches r dest = []" "dest \<noteq> TEMP_SG_BRANCH" "expanded \<noteq> []"
  shows "convert dest expanded pc sf so r
           = rebase_patches TEMP_SG_BRANCH dest
               (r\<lparr>head := dest,
                  branches := (branches r)
                    (TEMP_SG_BRANCH := expanded,
                     dest := upstream_commits (last expanded) pc sf so),
                  tags := (tags r)(START_TAG := upstream_commits (last expanded) pc sf so)\<rparr>)"
proof -
  let ?r1 = "r\<lparr>head := dest\<rparr>"
  let ?r2 = "?r1\<lparr>branches := (branches r)(TEMP_SG_BRANCH := expanded)\<rparr>"
  have 1: "checkout dest True False r = Some ?r1"
    using assms by (simp add: checkout_def)
  have 2: "fetch expanded TEMP_SG_BRANCH ?r1 = Some ?r2"
    using assms by (simp add: fetch_def)
  have 3: "cherry_pick_base TEMP_SG_BRANCH dest ?r2
             = Some (?r2\<lparr>branches := (branches ?r2)(dest := last expanded # branches ?r2 (head ?r2)),
                         head := dest\<rparr>)"
    using assms drop_to_last [of expanded]
    by (simp add: cherry_pick_base_def iter_commits_def checkout_def cherry_pick_def
          rev_parse_def)
  show ?thesis
    using assms(1,2)
    by (simp only: convert_def 1 2 3 Option.bind.bind_lunit)
       (simp add: commit_def create_tag_def Let_def upstream_commits_def)
qed

lemma convert_fails:
  assumes "branches r dest \<noteq> [] \<or> dest = TEMP_SG_BRANCH \<or> expanded = []"
  shows "convert dest expanded pc sf so r = None"
  using assms by (auto simp: convert_def checkout_def fetch_def)

text \<open>
  C1, as the code has it. The git operations of \<open>convert\<close> on the source-git repository
  all succeed exactly when the destination branch is new and is not the temporary branch,
  and the expanded history is not empty and is not a lone commit of \<^verbatim>\<open>%prep\<close> leftovers.
  After them, the tag \<^verbatim>\<open>sg-start\<close> is on the destination
  branch and points at the commit "Add sources defined in the spec file" when the tip of
  the expanded history did not carry the message of the leftovers; when it did, the tag
  points at the copy of that tip, whose parent is the commit "Add sources defined in the
  spec file".
\<close>

theorem convert_boundary_tag:
  "((\<exists>r'. convert dest expanded pc sf so r = Some r') \<longleftrightarrow>
      branches r dest = [] \<and> dest \<noteq> TEMP_SG_BRANCH \<and> expanded \<noteq> []
      \<and> (message (hd expanded) = prep_commit_message \<longrightarrow> 2 \<le> length expanded))
   \<and> (\<forall>r'. convert dest expanded pc sf so r = Some r' \<longrightarrow>
         tags r' START_TAG
           = (if message (hd expanded) = prep_commit_message
              then hd expanded # upstream_commits (last expanded) pc sf so
              else upstream_commits (last expanded) pc sf so)
         \<and> is_ancestor (tags r' START_TAG) (branches r' dest))"
proof (cases "branches r dest = [] \<and> dest \<noteq> TEMP_SG_BRANCH \<and> expanded \<noteq> []")
  case False
  then show ?thesis
    using convert_fails [of r dest expanded pc sf so] by auto
next
  case True
  let ?up = "upstream_commits (last expanded) pc sf so"
  let ?r = "r\<lparr>head := dest,
               branches := (branches r)(TEMP_SG_BRANCH := expanded, dest := ?up),
               tags := (tags r)(START_TAG := ?up)\<rparr>"
  have conv: "convert dest expanded pc sf so r = rebase_patches TEMP_SG_BRANCH dest ?r"
    using True by (simp add: convert_upto_tag)
  have up: "?up \<noteq> []"
    by (simp add: upstream_commits_def)
  obtain c cs where expanded: "expanded = c # cs"
    using True by (cases expanded) auto
  show ?thesis
  proof (cases "message c = prep_commit_message")
    case plain: False
    have "rebase_patches TEMP_SG_BRANCH dest ?r
            = Some (?r\<lparr>branches := (branches ?r)
                          (TEMP_SG_BRANCH := [], dest := butlast (c # cs) @ ?up),
                        head := dest\<rparr>)"
      using True plain expanded up
      by (intro rebase_patches_plain) auto
    then show ?thesis
      using True plain expanded conv by (simp add: is_ancestor_append)
  next
    case sentinel: True
    show ?thesis
    proof (cases cs)
      case Nil
      then have "rebase_patches TEMP_SG_BRANCH dest ?r = None"
        using True sentinel expanded by (intro rebase_patches_root_only [of _ _ c]) auto
      then show ?thesis
        using True sentinel expanded Nil conv by simp
    next
      case (Cons p ps)
      have "rebase_patches TEMP_SG_BRANCH dest ?r
              = Some (?r\<lparr>branches := (branches ?r)
                            (TEMP_SG_BRANCH := [], dest := butlast (p # ps) @ c # ?up),
                          tags := (tags ?r)(START_TAG := c # ?up),
                          head := dest\<rparr>)"
        using True sentinel expanded Cons up
        by (intro rebase_patches_relocate) auto
      then show ?thesis
        using True sentinel expanded Cons conv
              is_ancestor_append [of "c # ?up" "butlast (p # ps)"]
        by simp
    qed
  qed
qed

theorem convert_boundary_tag_witness:
  "tags (the (convert ''c8s''
       [\<lparr>message = prep_commit_message, change = 9\<rparr>, \<lparr>message = ''fix'', change = 1\<rparr>,
        \<lparr>message = ''zlib-1.2.11 base'', change = 0\<rparr>] 1 2 3 empty_repo)) START_TAG
     = \<lparr>message = prep_commit_message, change = 9\<rparr>
         # upstream_commits \<lparr>message = ''zlib-1.2.11 base'', change = 0\<rparr> 1 2 3
   \<and> tags (the (convert ''c8s''
       [\<lparr>message = ''fix'', change = 1\<rparr>, \<lparr>message = ''zlib-1.2.11 base'', change = 0\<rparr>]
       1 2 3 empty_repo)) START_TAG
     = upstream_commits \<lparr>message = ''zlib-1.2.11 base'', change = 0\<rparr> 1 2 3"
proof -
  let ?base = "\<lparr>message = ''zlib-1.2.11 base'', change = 0\<rparr>"
  let ?raw1 = "[\<lparr>message = prep_commit_message, change = 9\<rparr>, \<lparr>message = ''fix'', change = 1\<rparr>,
                ?base]"
  let ?raw2 = "[\<lparr>message = ''fix'', change = 1\<rparr>, ?base]"
  have "tags (the (convert ''c8s'' ?raw1 1 2 3 empty_repo)) START_TAG
          = \<lparr>message = prep_commit_message, change = 9\<rparr> # upstream_commits ?base 1 2 3"
    using convert_boundary_tag [of "''c8s''" ?raw1 1 2 3 empty_repo]
    by (auto simp: empty_repo_def TEMP_SG_BRANCH_def)
  moreover have "tags (the (convert ''c8s'' ?raw2 1 2 3 empty_repo)) START_TAG
          = upstream_commits ?base 1 2 3"
    using convert_boundary_tag [of "''c8s''" ?raw2 1 2 3 empty_repo]
    by (auto simp: empty_repo_def TEMP_SG_BRANCH_def prep_commit_message_def)
  ultimately show ?thesis
    by simp
qed

text \<open>
  C1, as stated, fails: for an expanded history with a commit of \<^verbatim>\<open>%prep\<close> leftovers at
  its tip the conversion succeeds and leaves the tag on the copy of that commit, not on
  the commit "Add sources defined in the spec file".
\<close>

theorem convert_boundary_tag_counterexample:
  "convert ''c8s''
       [\<lparr>message = ''Changes after running %prep'' @ [CHR 0x0A], change = 9\<rparr>,
        \<lparr>message = ''fix'', change = 1\<rparr>,
        \<lparr>message = ''zlib-1.2.11 base'', change = 0\<rparr>] 1 2 3 empty_repo \<noteq> None
   \<and> message (hd (tags (the (convert ''c8s''
       [\<lparr>message = ''Changes after running %prep'' @ [CHR 0x0A], change = 9\<rparr>,
        \<lparr>message = ''fix'', change = 1\<rparr>,
        \<lparr>message = ''zlib-1.2.11 base'', change = 0\<rparr>] 1 2 3 empty_repo)) START_TAG))
     = ''Changes after running %prep'' @ [CHR 0x0A]
   \<and> tags (the (convert ''c8s''
       [\<lparr>message = ''Changes after running %prep'' @ [CHR 0x0A], change = 9\<rparr>,
        \<lparr>message = ''fix'', change = 1\<rparr>,
        \<lparr>message = ''zlib-1.2.11 base'', change = 0\<rparr>] 1 2 3 empty_repo)) START_TAG
     \<noteq> [\<lparr>message = ''Add sources defined in the spec file'' @ [CHR 0x0A], change = 3\<rparr>,
         \<lparr>message = ''Add spec-file for the distribution'' @ [CHR 0x0A], change = 2\<rparr>,
         \<lparr>message = ''.packit.yaml'' @ [CHR 0x0A], change = 1\<rparr>,
         \<lparr>message = ''zlib-1.2.11 base'', change = 0\<rparr>]"
  by (simp add: convert_def checkout_def fetch_def cherry_pick_base_def iter_commits_def
        cherry_pick_def rev_parse_def commit_def create_tag_def rebase_patches_def
        head_commit_def reset_hard_parent_def rebase_root_onto_def merge_ff_only_def
        branch_delete_def is_ancestor_def empty_repo_def TEMP_SG_BRANCH_def START_TAG_def)

end
